theory Spec2Isabelle
  imports Main "HOL-Library.Sublist"
begin

section \<open>Data model\<close>

text \<open>
  A task is the dictionary built in \<open>TaskManager.add_task\<close>, with the four keys
  \<open>"id"\<close>, \<open>"title"\<close>, \<open>"status"\<close> and \<open>"date"\<close>. The fields carry the prefix
  \<open>t_\<close> so that the parameters of the methods keep the names they have in the source.
  Python integers are unbounded, hence \<open>int\<close>.
\<close>

record task =
  t_id :: int
  t_title :: string
  t_status :: string
  t_date :: string

text \<open>
  The state a method of \<open>TaskManager\<close> works on: the attribute \<open>self.tasks\<close> and the
  contents of the file \<open>DATA_FILE\<close> (\<open>None\<close> when the file does not exist). The type
  \<open>'f\<close> is the type of file contents. Opening the file for writing is taken to succeed.
\<close>

record 'f manager =
  tasks :: "task list"
  data_file :: "'f option"

datatype error = JSONDecodeError

section \<open>TaskManager\<close>

text \<open>
  \<open>json.dump\<close> and \<open>json.load\<close> belong to the Python library, not to this program:
  they are parameters \<open>json_dump\<close> and \<open>json_load\<close> of the methods that call them.
  \<open>json_load\<close> yields \<open>None\<close> where \<open>json.load\<close> raises.
\<close>

definition load_tasks :: "('f \<Rightarrow> task list option) \<Rightarrow> 'f manager \<Rightarrow> error + 'f manager" where
  "load_tasks json_load s =
     (case data_file s of
        Some f \<Rightarrow>
          (case json_load f of
             Some ts \<Rightarrow> Inr (s\<lparr>tasks := ts\<rparr>)
           | None \<Rightarrow> Inl JSONDecodeError)
      | None \<Rightarrow> Inr (s\<lparr>tasks := []\<rparr>))"

definition save_tasks :: "(task list \<Rightarrow> 'f) \<Rightarrow> 'f manager \<Rightarrow> 'f manager" where
  "save_tasks json_dump s = s\<lparr>data_file := Some (json_dump (tasks s))\<rparr>"

text \<open>\<open>TaskManager.__init__\<close>, on a file system whose \<open>DATA_FILE\<close> is \<open>f\<close>.\<close>

definition init :: "('f \<Rightarrow> task list option) \<Rightarrow> 'f option \<Rightarrow> error + 'f manager" where
  "init json_load f = load_tasks json_load \<lparr>tasks = [], data_file = f\<rparr>"

definition add_task ::
  "(task list \<Rightarrow> 'f) \<Rightarrow> 'f manager \<Rightarrow> string \<Rightarrow> string \<Rightarrow> string \<Rightarrow> 'f manager" where
  "add_task json_dump s title status date_str =
     (let new_task = \<lparr>t_id = int (length (tasks s)) + 1,
                      t_title = title,
                      t_status = status,
                      t_date = date_str\<rparr>
      in save_tasks json_dump (s\<lparr>tasks := tasks s @ [new_task]\<rparr>))"

text \<open>The \<open>for\<close> loop of \<open>update_task_status\<close>, which stops at the first match.\<close>

fun update_loop :: "task list \<Rightarrow> int \<Rightarrow> string \<Rightarrow> task list" where
  "update_loop [] task_id new_status = []"
| "update_loop (task # rest) task_id new_status =
     (if t_id task = task_id
      then task\<lparr>t_status := new_status\<rparr> # rest
      else task # update_loop rest task_id new_status)"

definition update_task_status ::
  "(task list \<Rightarrow> 'f) \<Rightarrow> 'f manager \<Rightarrow> int \<Rightarrow> string \<Rightarrow> 'f manager" where
  "update_task_status json_dump s task_id new_status =
     save_tasks json_dump (s\<lparr>tasks := update_loop (tasks s) task_id new_status\<rparr>)"

definition delete_task :: "(task list \<Rightarrow> 'f) \<Rightarrow> 'f manager \<Rightarrow> int \<Rightarrow> 'f manager" where
  "delete_task json_dump s task_id =
     save_tasks json_dump (s\<lparr>tasks := [task \<leftarrow> tasks s. t_id task \<noteq> task_id]\<rparr>)"

definition get_tasks_by_status :: "'f manager \<Rightarrow> string \<Rightarrow> task list" where
  "get_tasks_by_status s status = [task \<leftarrow> tasks s. t_status task = status]"

section \<open>Calls on a manager\<close>

text \<open>
  A call of one of the four public methods. \<open>invoke\<close> gives the manager after the call
  and the value the call returns: the three mutating methods return nothing.
\<close>

datatype call =
    AddTask string string string
  | UpdateTaskStatus int string
  | DeleteTask int
  | GetTasksByStatus string

fun invoke :: "(task list \<Rightarrow> 'f) \<Rightarrow> 'f manager \<Rightarrow> call \<Rightarrow> 'f manager \<times> task list option" where
  "invoke json_dump s (AddTask title status date_str) =
     (add_task json_dump s title status date_str, None)"
| "invoke json_dump s (UpdateTaskStatus task_id new_status) =
     (update_task_status json_dump s task_id new_status, None)"
| "invoke json_dump s (DeleteTask task_id) = (delete_task json_dump s task_id, None)"
| "invoke json_dump s (GetTasksByStatus status) = (s, Some (get_tasks_by_status s status))"

fun run :: "(task list \<Rightarrow> 'f) \<Rightarrow> 'f manager \<Rightarrow> call list \<Rightarrow> 'f manager" where
  "run json_dump s [] = s"
| "run json_dump s (c # cs) = run json_dump (fst (invoke json_dump s c)) cs"

text \<open>The manager that \<open>__init__\<close> builds when \<open>DATA_FILE\<close> does not exist.\<close>

definition empty_manager :: "'f manager" where
  "empty_manager = \<lparr>tasks = [], data_file = None\<rparr>"

section \<open>The board's use of the manager\<close>

text \<open>
  The three column names of \<open>KanbanApp\<close>: the only status values its buttons and its
  dialog pass to the manager.
\<close>

definition board_status :: "string \<Rightarrow> bool" where
  "board_status status = (status = ''To do'' \<or> status = ''Doing'' \<or> status = ''Done'')"

fun board_call :: "call \<Rightarrow> bool" where
  "board_call (AddTask title status date_str) = board_status status"
| "board_call (UpdateTaskStatus task_id new_status) = board_status new_status"
| "board_call (DeleteTask task_id) = True"
| "board_call (GetTasksByStatus status) = True"

text \<open>
  \<open>str.strip()\<close> on the text of the title entry. Characters are the code points below
  256; \<open>isspace\<close> lists the ones Python's \<open>str.isspace\<close> accepts there.
\<close>

definition isspace :: "char \<Rightarrow> bool" where
  "isspace c =
     (let n = (of_char c :: nat)
      in (9 \<le> n \<and> n \<le> 13) \<or> (28 \<le> n \<and> n \<le> 32) \<or> n = 133 \<or> n = 160)"

definition strip :: "string \<Rightarrow> string" where
  "strip str = rev (dropWhile isspace (rev (dropWhile isspace str)))"

text \<open>
  \<open>confirm\<close>, the handler of the dialog's button, as far as the manager is concerned:
  \<open>entry_text\<close> is what \<open>title_entry.get()\<close> returns and \<open>dt\<close> the formatted date of
  the calendar widget. The result is the manager afterwards and whether the warning
  "Title cannot be empty." was shown.
\<close>

definition confirm ::
  "(task list \<Rightarrow> 'f) \<Rightarrow> 'f manager \<Rightarrow> string \<Rightarrow> string \<Rightarrow> 'f manager \<times> bool" where
  "confirm json_dump s entry_text dt =
     (let title = strip entry_text
      in if title = [] then (s, True)
         else (add_task json_dump s title ''To do'' dt, False))"

section \<open>Adding a task\<close>

text \<open>
  C2. For every manager and every title, status and date, \<open>add_task\<close> appends exactly
  one task at the end of the collection, whose id is the length of the collection before
  the call plus one and whose other fields are the arguments; the tasks already present
  keep their values and their order; the file then holds the dump of the whole new
  collection.
\<close>

theorem add_task_appends_and_persists:
  "tasks (add_task json_dump s title status date_str) =
     tasks s @ [\<lparr>t_id = int (length (tasks s)) + 1, t_title = title,
                 t_status = status, t_date = date_str\<rparr>]
   \<and> length (tasks (add_task json_dump s title status date_str)) = Suc (length (tasks s))
   \<and> take (length (tasks s)) (tasks (add_task json_dump s title status date_str)) = tasks s
   \<and> data_file (add_task json_dump s title status date_str) =
       Some (json_dump (tasks (add_task json_dump s title status date_str)))"
  by (simp add: add_task_def save_tasks_def Let_def)

text \<open>
  C10. \<open>add_task\<close> checks none of its arguments: whatever the title (the empty
  string included), the status and the date, the collection grows by one task that
  carries the three strings as given. The empty title is refused in \<open>confirm\<close> only:
  when the entry text strips to the empty string the manager is left as it was and the
  warning is shown, and otherwise the stripped text goes to \<open>add_task\<close> with the
  status \<open>"To do"\<close>.
\<close>

theorem add_task_no_validation:
  "tasks (add_task json_dump s title status date_str) \<noteq> []
   \<and> butlast (tasks (add_task json_dump s title status date_str)) = tasks s
   \<and> t_title (last (tasks (add_task json_dump s title status date_str))) = title
   \<and> t_status (last (tasks (add_task json_dump s title status date_str))) = status
   \<and> t_date (last (tasks (add_task json_dump s title status date_str))) = date_str
   \<and> t_title (last (tasks (add_task json_dump s [] status date_str))) = []
   \<and> (strip entry_text = [] \<longrightarrow> confirm json_dump s entry_text dt = (s, True))
   \<and> (strip entry_text \<noteq> [] \<longrightarrow>
        confirm json_dump s entry_text dt =
          (add_task json_dump s (strip entry_text) ''To do'' dt, False))"
  by (simp add: add_task_def save_tasks_def confirm_def Let_def)

text \<open>
  The hypotheses of C10 at concrete inputs: an entry of three blanks, an entry with text
  between blanks, and a direct call of \<open>add_task\<close> with an empty title and a status
  that is no column of the board.
\<close>

theorem add_task_no_validation_witness:
  "confirm id empty_manager ''   '' ''2024-01-01'' = (empty_manager, True)
   \<and> tasks (fst (confirm id empty_manager '' Write spec  '' ''2024-01-01''))
     = [\<lparr>t_id = 1, t_title = ''Write spec'', t_status = ''To do'', t_date = ''2024-01-01''\<rparr>]
   \<and> tasks (add_task id empty_manager '''' ''no such column'' ''tomorrow'')
     = [\<lparr>t_id = 1, t_title = '''', t_status = ''no such column'', t_date = ''tomorrow''\<rparr>]"
proof -
  have blank: "strip ''   '' = []"
    by (simp add: strip_def isspace_def)
  have nonblank: "strip '' Write spec  '' = ''Write spec''"
    by (simp add: strip_def isspace_def)
  note a = add_task_no_validation
    [of id "empty_manager :: task list manager" "''''" "''no such column''" "''tomorrow''"
        "''   ''" "''2024-01-01''"]
  note b = add_task_no_validation
    [of id "empty_manager :: task list manager" "''''" "''no such column''" "''tomorrow''"
        "'' Write spec  ''" "''2024-01-01''"]
  from a blank have "confirm id (empty_manager :: task list manager) ''   '' ''2024-01-01''
      = (empty_manager, True)"
    by blast
  moreover from b nonblank
  have "confirm id (empty_manager :: task list manager) '' Write spec  '' ''2024-01-01''
      = (add_task id empty_manager ''Write spec'' ''To do'' ''2024-01-01'', False)"
    by simp
  moreover have "tasks (add_task id (empty_manager :: task list manager) '''' ''no such column'' ''tomorrow'')
     = [\<lparr>t_id = 1, t_title = '''', t_status = ''no such column'', t_date = ''tomorrow''\<rparr>]"
    by (simp add: add_task_def save_tasks_def Let_def empty_manager_def)
  ultimately show ?thesis
    by (simp add: add_task_def save_tasks_def Let_def empty_manager_def)
qed

section \<open>Updating a status\<close>

text \<open>
  The loop rewrites the first task whose id matches and nothing behind it; without a
  match it returns the list as it was. It keeps the length, and at every position the id,
  the title and the date.
\<close>

lemma update_loop_first:
  "\<forall>y\<in>set pre. t_id y \<noteq> task_id \<Longrightarrow> t_id x = task_id \<Longrightarrow>
   update_loop (pre @ x # post) task_id new_status = pre @ x\<lparr>t_status := new_status\<rparr> # post"
  by (induction pre) auto

lemma update_loop_miss:
  "\<forall>y\<in>set ts. t_id y \<noteq> task_id \<Longrightarrow> update_loop ts task_id new_status = ts"
  by (induction ts) auto

lemma length_update_loop: "length (update_loop ts task_id new_status) = length ts"
  by (induction ts) auto

lemma update_loop_nth_fields:
  "i < length ts \<Longrightarrow>
   t_id (update_loop ts task_id new_status ! i) = t_id (ts ! i)
   \<and> t_title (update_loop ts task_id new_status ! i) = t_title (ts ! i)
   \<and> t_date (update_loop ts task_id new_status ! i) = t_date (ts ! i)"
proof (induction ts arbitrary: i)
  case Nil
  then show ?case by simp
next
  case (Cons task rest)
  show ?case
  proof (cases i)
    case 0
    then show ?thesis by simp
  next
    case (Suc k)
    with Cons show ?thesis by simp
  qed
qed

lemma update_loop_nth_other:
  "i < length ts \<Longrightarrow> t_id (ts ! i) \<noteq> task_id \<or> (\<exists>j<i. t_id (ts ! j) = task_id) \<Longrightarrow>
   update_loop ts task_id new_status ! i = ts ! i"
proof (induction ts arbitrary: i)
  case Nil
  then show ?case by simp
next
  case (Cons task rest)
  show ?case
  proof (cases "t_id task = task_id")
    case True
    with Cons.prems show ?thesis by (cases i) auto
  next
    case False
    show ?thesis
    proof (cases i)
      case 0
      with False show ?thesis by simp
    next
      case (Suc k)
      from Cons.prems(2) Suc False
      have "t_id (rest ! k) \<noteq> task_id \<or> (\<exists>j<k. t_id (rest ! j) = task_id)"
      proof (elim disjE exE conjE)
        assume "t_id ((task # rest) ! i) \<noteq> task_id"
        with Suc show ?thesis by simp
      next
        fix j assume j: "j < i" "t_id ((task # rest) ! j) = task_id"
        with False obtain j' where "j = Suc j'" by (cases j) auto
        with j Suc show ?thesis by auto
      qed
      with Cons.IH[of k] Cons.prems(1) Suc False show ?thesis by simp
    qed
  qed
qed

text \<open>
  C3. For every manager, id and new status: when the collection is \<open>pre @ x # post\<close>
  with no task of \<open>pre\<close> having the id and \<open>x\<close> having it, \<open>update_task_status\<close>
  overwrites the status of \<open>x\<close> and nothing else; when no task has the id the
  collection stays exactly as it was; the method returns a manager in either case (it has
  no failing branch), and the file holds the dump of the resulting collection.
\<close>

theorem update_task_status_first_match:
  "(tasks s = pre @ x # post \<and> (\<forall>y\<in>set pre. t_id y \<noteq> task_id) \<and> t_id x = task_id \<longrightarrow>
      tasks (update_task_status json_dump s task_id new_status) =
        pre @ x\<lparr>t_status := new_status\<rparr> # post)
   \<and> ((\<forall>y\<in>set (tasks s). t_id y \<noteq> task_id) \<longrightarrow>
      tasks (update_task_status json_dump s task_id new_status) = tasks s)
   \<and> data_file (update_task_status json_dump s task_id new_status) =
       Some (json_dump (tasks (update_task_status json_dump s task_id new_status)))"
proof (intro conjI impI)
  assume "tasks s = pre @ x # post \<and> (\<forall>y\<in>set pre. t_id y \<noteq> task_id) \<and> t_id x = task_id"
  then have "update_loop (tasks s) task_id new_status = pre @ x\<lparr>t_status := new_status\<rparr> # post"
    by (simp add: update_loop_first)
  then show "tasks (update_task_status json_dump s task_id new_status) =
      pre @ x\<lparr>t_status := new_status\<rparr> # post"
    by (simp add: update_task_status_def save_tasks_def)
next
  assume "\<forall>y\<in>set (tasks s). t_id y \<noteq> task_id"
  then have "update_loop (tasks s) task_id new_status = tasks s"
    by (rule update_loop_miss)
  then show "tasks (update_task_status json_dump s task_id new_status) = tasks s"
    by (simp add: update_task_status_def save_tasks_def)
next
  show "data_file (update_task_status json_dump s task_id new_status) =
      Some (json_dump (tasks (update_task_status json_dump s task_id new_status)))"
    by (simp add: update_task_status_def save_tasks_def)
qed

text \<open>
  The two hypotheses of C3 at concrete collections: three tasks of which the second and
  the third share the id 2 (only the second is rewritten), and an id that no task has.
\<close>

theorem update_task_status_first_match_witness:
  "tasks (update_task_status id
       \<lparr>tasks = [\<lparr>t_id = 1, t_title = ''a'', t_status = ''To do'', t_date = ''2024-01-01''\<rparr>,
                 \<lparr>t_id = 2, t_title = ''b'', t_status = ''To do'', t_date = ''2024-01-02''\<rparr>,
                 \<lparr>t_id = 2, t_title = ''c'', t_status = ''To do'', t_date = ''2024-01-03''\<rparr>],
        data_file = None\<rparr> 2 ''Done'')
     = [\<lparr>t_id = 1, t_title = ''a'', t_status = ''To do'', t_date = ''2024-01-01''\<rparr>,
        \<lparr>t_id = 2, t_title = ''b'', t_status = ''Done'', t_date = ''2024-01-02''\<rparr>,
        \<lparr>t_id = 2, t_title = ''c'', t_status = ''To do'', t_date = ''2024-01-03''\<rparr>]
   \<and> tasks (update_task_status id
       \<lparr>tasks = [\<lparr>t_id = 1, t_title = ''a'', t_status = ''To do'', t_date = ''2024-01-01''\<rparr>],
        data_file = None\<rparr> 7 ''Done'')
     = [\<lparr>t_id = 1, t_title = ''a'', t_status = ''To do'', t_date = ''2024-01-01''\<rparr>]"
proof -
  let ?a = "\<lparr>t_id = 1, t_title = ''a'', t_status = ''To do'', t_date = ''2024-01-01''\<rparr>"
  let ?b = "\<lparr>t_id = 2, t_title = ''b'', t_status = ''To do'', t_date = ''2024-01-02''\<rparr>"
  let ?c = "\<lparr>t_id = 2, t_title = ''c'', t_status = ''To do'', t_date = ''2024-01-03''\<rparr>"
  let ?s = "\<lparr>tasks = [?a, ?b, ?c], data_file = None :: task list option\<rparr>"
  let ?s1 = "\<lparr>tasks = [?a], data_file = None :: task list option\<rparr>"
  have h1: "tasks ?s = [?a] @ ?b # [?c] \<and> (\<forall>y\<in>set [?a]. t_id y \<noteq> 2) \<and> t_id ?b = 2"
    by simp
  have h2: "\<forall>y\<in>set (tasks ?s1). t_id y \<noteq> 7"
    by simp
  from update_task_status_first_match [of ?s "[?a]" ?b "[?c]" 2 id "''Done''"] h1
  have "tasks (update_task_status id ?s 2 ''Done'') = [?a] @ ?b\<lparr>t_status := ''Done''\<rparr> # [?c]"
    by blast
  moreover
  from update_task_status_first_match [of ?s1 "[]" ?a "[]" 7 id "''Done''"] h2
  have "tasks (update_task_status id ?s1 7 ''Done'') = tasks ?s1"
    by blast
  ultimately show ?thesis by simp
qed

text \<open>
  C9. \<open>update_task_status\<close> keeps the number of tasks and, at every position, the id,
  the title and the date; a task that is not the first one with the given id (its id
  differs, or an earlier task has the id already) is left equal to what it was, status
  included.
\<close>

theorem update_task_status_frame:
  "length (tasks (update_task_status json_dump s task_id new_status)) = length (tasks s)
   \<and> (\<forall>i<length (tasks s).
        t_id (tasks (update_task_status json_dump s task_id new_status) ! i) = t_id (tasks s ! i)
        \<and> t_title (tasks (update_task_status json_dump s task_id new_status) ! i)
            = t_title (tasks s ! i)
        \<and> t_date (tasks (update_task_status json_dump s task_id new_status) ! i)
            = t_date (tasks s ! i)
        \<and> (t_id (tasks s ! i) \<noteq> task_id \<or> (\<exists>j<i. t_id (tasks s ! j) = task_id) \<longrightarrow>
             tasks (update_task_status json_dump s task_id new_status) ! i = tasks s ! i))"
  by (simp add: update_task_status_def save_tasks_def length_update_loop
        update_loop_nth_fields update_loop_nth_other)

text \<open>
  The hypotheses of C9 on the collection with two tasks of id 2: the later one, at
  position 2, is untouched, and the rewritten one, at position 1, keeps its title.
\<close>

theorem update_task_status_frame_witness:
  "tasks (update_task_status id
       \<lparr>tasks = [\<lparr>t_id = 1, t_title = ''a'', t_status = ''To do'', t_date = ''2024-01-01''\<rparr>,
                 \<lparr>t_id = 2, t_title = ''b'', t_status = ''To do'', t_date = ''2024-01-02''\<rparr>,
                 \<lparr>t_id = 2, t_title = ''c'', t_status = ''To do'', t_date = ''2024-01-03''\<rparr>],
        data_file = None\<rparr> 2 ''Done'') ! 2
     = \<lparr>t_id = 2, t_title = ''c'', t_status = ''To do'', t_date = ''2024-01-03''\<rparr>
   \<and> t_title (tasks (update_task_status id
       \<lparr>tasks = [\<lparr>t_id = 1, t_title = ''a'', t_status = ''To do'', t_date = ''2024-01-01''\<rparr>,
                 \<lparr>t_id = 2, t_title = ''b'', t_status = ''To do'', t_date = ''2024-01-02''\<rparr>,
                 \<lparr>t_id = 2, t_title = ''c'', t_status = ''To do'', t_date = ''2024-01-03''\<rparr>],
        data_file = None\<rparr> 2 ''Done'') ! 1) = ''b''"
proof -
  let ?a = "\<lparr>t_id = 1, t_title = ''a'', t_status = ''To do'', t_date = ''2024-01-01''\<rparr>"
  let ?b = "\<lparr>t_id = 2, t_title = ''b'', t_status = ''To do'', t_date = ''2024-01-02''\<rparr>"
  let ?c = "\<lparr>t_id = 2, t_title = ''c'', t_status = ''To do'', t_date = ''2024-01-03''\<rparr>"
  let ?s = "\<lparr>tasks = [?a, ?b, ?c], data_file = None :: task list option\<rparr>"
  note frame = update_task_status_frame [of id ?s 2 "''Done''"]
  have i2: "(2::nat) < length (tasks ?s)" and i1: "(1::nat) < length (tasks ?s)"
    by simp_all
  have later: "t_id (tasks ?s ! 2) \<noteq> 2 \<or> (\<exists>j<2. t_id (tasks ?s ! j) = 2)"
  proof (rule disjI2)
    have "(1::nat) < 2 \<and> t_id (tasks ?s ! 1) = 2" by simp
    then show "\<exists>j<2. t_id (tasks ?s ! j) = 2" by blast
  qed
  from frame i2 later have "tasks (update_task_status id ?s 2 ''Done'') ! 2 = tasks ?s ! 2"
    by blast
  moreover from frame i1
  have "t_title (tasks (update_task_status id ?s 2 ''Done'') ! 1) = t_title (tasks ?s ! 1)"
    by blast
  ultimately show ?thesis by simp
qed

section \<open>Deleting and querying\<close>

text \<open>
  C4. After \<open>delete_task\<close> with an id, no result of \<open>get_tasks_by_status\<close>, for any
  status, contains a task with that id, and a second \<open>delete_task\<close> with the same id
  gives the same manager (collection and file) as the first.
\<close>

theorem delete_task_removes_and_idempotent:
  "task_id \<notin> t_id ` set (get_tasks_by_status (delete_task json_dump s task_id) status)
   \<and> delete_task json_dump (delete_task json_dump s task_id) task_id =
       delete_task json_dump s task_id
   \<and> tasks (delete_task json_dump (delete_task json_dump s task_id) task_id) =
       tasks (delete_task json_dump s task_id)"
proof -
  have kept: "set (tasks (delete_task json_dump s task_id)) = {t \<in> set (tasks s). t_id t \<noteq> task_id}"
    by (simp add: delete_task_def save_tasks_def)
  have "set (get_tasks_by_status (delete_task json_dump s task_id) status)
      \<subseteq> set (tasks (delete_task json_dump s task_id))"
    by (auto simp add: get_tasks_by_status_def)
  with kept have absent:
    "task_id \<notin> t_id ` set (get_tasks_by_status (delete_task json_dump s task_id) status)"
    by auto
  have "[task \<leftarrow> [task \<leftarrow> tasks s. t_id task \<noteq> task_id]. t_id task \<noteq> task_id] =
      [task \<leftarrow> tasks s. t_id task \<noteq> task_id]"
    by simp
  then have twice: "delete_task json_dump (delete_task json_dump s task_id) task_id =
      delete_task json_dump s task_id"
    by (simp add: delete_task_def save_tasks_def)
  from absent twice show ?thesis
    by simp
qed

lemma subseq_filter_greatest:
  "subseq r xs \<Longrightarrow> list_all P r \<Longrightarrow> subseq r (filter P xs)"
proof -
  assume a: "subseq r xs" and b: "list_all P r"
  from a have "subseq (filter P r) (filter P xs)" by (rule subseq_filter)
  moreover from b have "filter P r = r" by (simp add: list_all_iff)
  ultimately show ?thesis by simp
qed

text \<open>
  C6. A call of \<open>get_tasks_by_status\<close> returns the manager it was given, unchanged, and
  the tasks of the collection whose status equals the argument, in collection order: the
  result is a subsequence of the collection, its elements are exactly the tasks of that
  status, and every subsequence of the collection made of tasks of that status is a
  subsequence of the result. A second call with the same argument returns the same list.
\<close>

theorem get_tasks_by_status_subsequence:
  "invoke json_dump s (GetTasksByStatus status) = (s, Some (get_tasks_by_status s status))
   \<and> get_tasks_by_status s status = filter (\<lambda>t. t_status t = status) (tasks s)
   \<and> subseq (get_tasks_by_status s status) (tasks s)
   \<and> set (get_tasks_by_status s status) = {t \<in> set (tasks s). t_status t = status}
   \<and> (\<forall>r. subseq r (tasks s) \<and> list_all (\<lambda>t. t_status t = status) r \<longrightarrow>
          subseq r (get_tasks_by_status s status))
   \<and> snd (invoke json_dump (fst (invoke json_dump s (GetTasksByStatus status)))
           (GetTasksByStatus status))
       = snd (invoke json_dump s (GetTasksByStatus status))"
proof -
  have res: "get_tasks_by_status s status = filter (\<lambda>t. t_status t = status) (tasks s)"
    by (simp add: get_tasks_by_status_def)
  have same: "invoke json_dump s (GetTasksByStatus status) = (s, Some (get_tasks_by_status s status))"
    by simp
  have sub: "subseq (get_tasks_by_status s status) (tasks s)"
    unfolding res by (rule subseq_filter_left)
  have elems: "set (get_tasks_by_status s status) = {t \<in> set (tasks s). t_status t = status}"
    unfolding res by simp
  have greatest: "\<forall>r. subseq r (tasks s) \<and> list_all (\<lambda>t. t_status t = status) r \<longrightarrow>
      subseq r (get_tasks_by_status s status)"
    unfolding res by (simp add: subseq_filter_greatest)
  have again: "snd (invoke json_dump (fst (invoke json_dump s (GetTasksByStatus status)))
           (GetTasksByStatus status)) = snd (invoke json_dump s (GetTasksByStatus status))"
    by simp
  from same res sub elems greatest again show ?thesis
    by blast
qed

text \<open>
  The hypothesis of C6 at a collection of three tasks: the list of the third task alone
  is a subsequence of the collection with the status asked for, hence of the result.
\<close>

theorem get_tasks_by_status_subsequence_witness:
  "subseq [\<lparr>t_id = 3, t_title = ''c'', t_status = ''To do'', t_date = ''2024-01-03''\<rparr>]
     (get_tasks_by_status
        \<lparr>tasks = [\<lparr>t_id = 1, t_title = ''a'', t_status = ''To do'', t_date = ''2024-01-01''\<rparr>,
                  \<lparr>t_id = 2, t_title = ''b'', t_status = ''Doing'', t_date = ''2024-01-02''\<rparr>,
                  \<lparr>t_id = 3, t_title = ''c'', t_status = ''To do'', t_date = ''2024-01-03''\<rparr>],
         data_file = None :: task list option\<rparr> ''To do'')
   \<and> get_tasks_by_status
        \<lparr>tasks = [\<lparr>t_id = 1, t_title = ''a'', t_status = ''To do'', t_date = ''2024-01-01''\<rparr>,
                  \<lparr>t_id = 2, t_title = ''b'', t_status = ''Doing'', t_date = ''2024-01-02''\<rparr>,
                  \<lparr>t_id = 3, t_title = ''c'', t_status = ''To do'', t_date = ''2024-01-03''\<rparr>],
         data_file = None :: task list option\<rparr> ''To do''
      = [\<lparr>t_id = 1, t_title = ''a'', t_status = ''To do'', t_date = ''2024-01-01''\<rparr>,
         \<lparr>t_id = 3, t_title = ''c'', t_status = ''To do'', t_date = ''2024-01-03''\<rparr>]"
proof -
  let ?a = "\<lparr>t_id = 1, t_title = ''a'', t_status = ''To do'', t_date = ''2024-01-01''\<rparr>"
  let ?b = "\<lparr>t_id = 2, t_title = ''b'', t_status = ''Doing'', t_date = ''2024-01-02''\<rparr>"
  let ?c = "\<lparr>t_id = 3, t_title = ''c'', t_status = ''To do'', t_date = ''2024-01-03''\<rparr>"
  let ?s = "\<lparr>tasks = [?a, ?b, ?c], data_file = None :: task list option\<rparr>"
  note spec = get_tasks_by_status_subsequence [of id ?s "''To do''"]
  have h: "subseq [?c] (tasks ?s) \<and> list_all (\<lambda>t. t_status t = ''To do'') [?c]"
    by simp
  from spec h have "subseq [?c] (get_tasks_by_status ?s ''To do'')"
    by blast
  moreover from spec have "get_tasks_by_status ?s ''To do'' = [?a, ?c]"
    by simp
  ultimately show ?thesis by simp
qed

text \<open>
  C7 as stated fails. After adding \<open>a\<close> and \<open>b\<close>, deleting id 1 and adding \<open>c\<close>,
  the tasks \<open>b\<close> and \<open>c\<close> both have id 2 and status \<open>"To do"\<close>. The manager holds
  the task \<open>c\<close> with id 2 and old status \<open>"To do"\<close>, yet after
  \<open>update_task_status 2 "Doing"\<close> the query for \<open>"To do"\<close> still returns \<open>c\<close> and the
  query for \<open>"Doing"\<close> returns \<open>b\<close> only.
\<close>

theorem update_task_status_any_match_counterexample:
  "\<lparr>t_id = 2, t_title = ''c'', t_status = ''To do'', t_date = ''2024-01-03''\<rparr>
     \<in> set (tasks (run id empty_manager
         [AddTask ''a'' ''To do'' ''2024-01-01'', AddTask ''b'' ''To do'' ''2024-01-02'',
          DeleteTask 1, AddTask ''c'' ''To do'' ''2024-01-03'']))
   \<and> ''To do'' \<noteq> ''Doing''
   \<and> \<lparr>t_id = 2, t_title = ''c'', t_status = ''To do'', t_date = ''2024-01-03''\<rparr>
     \<in> set (get_tasks_by_status
         (update_task_status id
            (run id empty_manager
               [AddTask ''a'' ''To do'' ''2024-01-01'', AddTask ''b'' ''To do'' ''2024-01-02'',
                DeleteTask 1, AddTask ''c'' ''To do'' ''2024-01-03'']) 2 ''Doing'') ''To do'')
   \<and> get_tasks_by_status
         (update_task_status id
            (run id empty_manager
               [AddTask ''a'' ''To do'' ''2024-01-01'', AddTask ''b'' ''To do'' ''2024-01-02'',
                DeleteTask 1, AddTask ''c'' ''To do'' ''2024-01-03'']) 2 ''Doing'') ''Doing''
     = [\<lparr>t_id = 2, t_title = ''b'', t_status = ''Doing'', t_date = ''2024-01-02''\<rparr>]"
  by (simp add: empty_manager_def add_task_def delete_task_def update_task_status_def
        get_tasks_by_status_def save_tasks_def Let_def)

text \<open>
  C7, amended. When the first task of the collection with the given id has the old
  status \<open>old\<close>, then after \<open>update_task_status\<close> with the new status the query for the
  new status returns that task, with its status overwritten, at its place among the tasks
  around it, and, when the two statuses differ, the query for \<open>old\<close> returns what it
  returned before with that one task taken out. Later tasks with the same id stay in the
  bucket they were in.
\<close>

theorem update_task_status_moves_first_match:
  "tasks s = pre @ x # post \<and> (\<forall>y\<in>set pre. t_id y \<noteq> task_id) \<and> t_id x = task_id
     \<and> t_status x = old \<longrightarrow>
   get_tasks_by_status s old =
     [t \<leftarrow> pre. t_status t = old] @ x # [t \<leftarrow> post. t_status t = old]
   \<and> get_tasks_by_status (update_task_status json_dump s task_id new_status) new_status =
     [t \<leftarrow> pre. t_status t = new_status] @ x\<lparr>t_status := new_status\<rparr>
        # [t \<leftarrow> post. t_status t = new_status]
   \<and> (old \<noteq> new_status \<longrightarrow>
        get_tasks_by_status (update_task_status json_dump s task_id new_status) old =
          [t \<leftarrow> pre. t_status t = old] @ [t \<leftarrow> post. t_status t = old])"
proof (intro impI)
  assume a: "tasks s = pre @ x # post \<and> (\<forall>y\<in>set pre. t_id y \<noteq> task_id) \<and> t_id x = task_id
     \<and> t_status x = old"
  then have upd: "tasks (update_task_status json_dump s task_id new_status) =
      pre @ x\<lparr>t_status := new_status\<rparr> # post"
    by (simp add: update_task_status_def save_tasks_def update_loop_first)
  from a have before: "get_tasks_by_status s old =
      [t \<leftarrow> pre. t_status t = old] @ x # [t \<leftarrow> post. t_status t = old]"
    by (simp add: get_tasks_by_status_def)
  from upd have new: "get_tasks_by_status (update_task_status json_dump s task_id new_status) new_status =
      [t \<leftarrow> pre. t_status t = new_status] @ x\<lparr>t_status := new_status\<rparr>
        # [t \<leftarrow> post. t_status t = new_status]"
    by (simp add: get_tasks_by_status_def)
  from upd have gone: "old \<noteq> new_status \<longrightarrow>
      get_tasks_by_status (update_task_status json_dump s task_id new_status) old =
        [t \<leftarrow> pre. t_status t = old] @ [t \<leftarrow> post. t_status t = old]"
    by (simp add: get_tasks_by_status_def)
  from before new gone show "get_tasks_by_status s old =
     [t \<leftarrow> pre. t_status t = old] @ x # [t \<leftarrow> post. t_status t = old]
   \<and> get_tasks_by_status (update_task_status json_dump s task_id new_status) new_status =
     [t \<leftarrow> pre. t_status t = new_status] @ x\<lparr>t_status := new_status\<rparr>
        # [t \<leftarrow> post. t_status t = new_status]
   \<and> (old \<noteq> new_status \<longrightarrow>
        get_tasks_by_status (update_task_status json_dump s task_id new_status) old =
          [t \<leftarrow> pre. t_status t = old] @ [t \<leftarrow> post. t_status t = old])"
    by blast
qed

text \<open>
  The hypotheses of the amended C7 on the collection of the counterexample: \<open>b\<close> moves
  to \<open>"Doing"\<close>, \<open>c\<close> stays in \<open>"To do"\<close>.
\<close>

theorem update_task_status_moves_first_match_witness:
  "get_tasks_by_status
     (update_task_status id
        \<lparr>tasks = [\<lparr>t_id = 2, t_title = ''b'', t_status = ''To do'', t_date = ''2024-01-02''\<rparr>,
                  \<lparr>t_id = 2, t_title = ''c'', t_status = ''To do'', t_date = ''2024-01-03''\<rparr>],
         data_file = None\<rparr> 2 ''Doing'') ''Doing''
     = [\<lparr>t_id = 2, t_title = ''b'', t_status = ''Doing'', t_date = ''2024-01-02''\<rparr>]
   \<and> get_tasks_by_status
     (update_task_status id
        \<lparr>tasks = [\<lparr>t_id = 2, t_title = ''b'', t_status = ''To do'', t_date = ''2024-01-02''\<rparr>,
                  \<lparr>t_id = 2, t_title = ''c'', t_status = ''To do'', t_date = ''2024-01-03''\<rparr>],
         data_file = None\<rparr> 2 ''Doing'') ''To do''
     = [\<lparr>t_id = 2, t_title = ''c'', t_status = ''To do'', t_date = ''2024-01-03''\<rparr>]"
proof -
  let ?b = "\<lparr>t_id = 2, t_title = ''b'', t_status = ''To do'', t_date = ''2024-01-02''\<rparr>"
  let ?c = "\<lparr>t_id = 2, t_title = ''c'', t_status = ''To do'', t_date = ''2024-01-03''\<rparr>"
  let ?s = "\<lparr>tasks = [?b, ?c], data_file = None :: task list option\<rparr>"
  have h: "tasks ?s = [] @ ?b # [?c] \<and> (\<forall>y\<in>set []. t_id y \<noteq> 2) \<and> t_id ?b = 2
             \<and> t_status ?b = ''To do''"
    by simp
  have d: "''To do'' \<noteq> ''Doing''"
    by simp
  from update_task_status_moves_first_match [of ?s "[]" ?b "[?c]" 2 "''To do''" id "''Doing''"] h d
  show ?thesis by simp
qed

section \<open>Reachable managers\<close>

text \<open>
  C1 does not hold of the code: \<open>add_task\<close> numbers a task by the length of the
  collection, which shrinks on deletion. From the empty manager, adding \<open>a\<close> and
  \<open>b\<close>, deleting id 1 and adding \<open>c\<close> leaves two tasks with id 2; and adding \<open>a\<close>
  (id 1), deleting id 1 and adding \<open>b\<close> gives \<open>b\<close> the id 1 again.
\<close>

theorem add_task_id_collision:
  "map t_id (tasks (run id empty_manager
      [AddTask ''a'' ''To do'' ''2024-01-01'', AddTask ''b'' ''To do'' ''2024-01-02'',
       DeleteTask 1, AddTask ''c'' ''To do'' ''2024-01-03''])) = [2, 2]
   \<and> \<not> distinct (map t_id (tasks (run id empty_manager
      [AddTask ''a'' ''To do'' ''2024-01-01'', AddTask ''b'' ''To do'' ''2024-01-02'',
       DeleteTask 1, AddTask ''c'' ''To do'' ''2024-01-03''])))
   \<and> map t_id (tasks (run id empty_manager [AddTask ''a'' ''To do'' ''2024-01-01''])) = [1]
   \<and> tasks (run id empty_manager [AddTask ''a'' ''To do'' ''2024-01-01'', DeleteTask 1]) = []
   \<and> tasks (run id empty_manager
        [AddTask ''a'' ''To do'' ''2024-01-01'', DeleteTask 1,
         AddTask ''b'' ''To do'' ''2024-01-02''])
      = [\<lparr>t_id = 1, t_title = ''b'', t_status = ''To do'', t_date = ''2024-01-02''\<rparr>]"
  by (simp add: empty_manager_def add_task_def delete_task_def save_tasks_def Let_def)

lemma board_status_add_task:
  "list_all (\<lambda>t. board_status (t_status t)) (tasks s) \<Longrightarrow> board_status status \<Longrightarrow>
   list_all (\<lambda>t. board_status (t_status t)) (tasks (add_task json_dump s title status date_str))"
  by (simp add: add_task_def save_tasks_def Let_def)

lemma board_status_update_loop:
  "list_all (\<lambda>t. board_status (t_status t)) ts \<Longrightarrow> board_status new_status \<Longrightarrow>
   list_all (\<lambda>t. board_status (t_status t)) (update_loop ts task_id new_status)"
  by (induction ts) auto

lemma board_status_delete_task:
  "list_all (\<lambda>t. board_status (t_status t)) (tasks s) \<Longrightarrow>
   list_all (\<lambda>t. board_status (t_status t)) (tasks (delete_task json_dump s task_id))"
  by (simp add: delete_task_def save_tasks_def list_all_iff)

lemma board_status_invoke:
  "list_all (\<lambda>t. board_status (t_status t)) (tasks s) \<Longrightarrow> board_call c \<Longrightarrow>
   list_all (\<lambda>t. board_status (t_status t)) (tasks (fst (invoke json_dump s c)))"
  by (cases c)
    (simp_all add: board_status_add_task board_status_delete_task board_status_update_loop
       update_task_status_def save_tasks_def)

lemma board_status_run:
  "list_all (\<lambda>t. board_status (t_status t)) (tasks s) \<Longrightarrow> list_all board_call cs \<Longrightarrow>
   list_all (\<lambda>t. board_status (t_status t)) (tasks (run json_dump s cs))"
proof (induction cs arbitrary: s)
  case Nil
  then show ?case by simp
next
  case (Cons c cs)
  then show ?case by (simp add: board_status_invoke)
qed

lemma file_invoke:
  "data_file s = None \<or> data_file s = Some (json_dump (tasks s)) \<Longrightarrow>
   data_file (fst (invoke json_dump s c)) = None
   \<or> data_file (fst (invoke json_dump s c)) = Some (json_dump (tasks (fst (invoke json_dump s c))))"
  by (cases c)
    (simp_all add: add_task_def update_task_status_def delete_task_def save_tasks_def Let_def)

lemma file_run:
  "data_file s = None \<or> data_file s = Some (json_dump (tasks s)) \<Longrightarrow>
   data_file (run json_dump s cs) = None
   \<or> data_file (run json_dump s cs) = Some (json_dump (tasks (run json_dump s cs)))"
proof (induction cs arbitrary: s)
  case Nil
  then show ?case by simp
next
  case (Cons c cs)
  from Cons.prems have "data_file (fst (invoke json_dump s c)) = None
   \<or> data_file (fst (invoke json_dump s c)) = Some (json_dump (tasks (fst (invoke json_dump s c))))"
    by (rule file_invoke)
  then show ?case using Cons.IH by simp
qed

text \<open>
  C8 as stated fails: the manager stores whatever status it is given. From the empty
  manager, \<open>add_task\<close> with the status \<open>"Blocked"\<close> stores \<open>"Blocked"\<close>, and
  \<open>update_task_status\<close> with \<open>"Archived"\<close> stores \<open>"Archived"\<close>; neither is one of the
  three column names.
\<close>

theorem store_accepts_any_status_counterexample:
  "map t_status (tasks (run id empty_manager [AddTask ''x'' ''Blocked'' ''2024-01-01'']))
     = [''Blocked'']
   \<and> map t_status (tasks (run id empty_manager
        [AddTask ''x'' ''To do'' ''2024-01-01'', UpdateTaskStatus 1 ''Archived'']))
     = [''Archived'']
   \<and> \<not> board_status ''Blocked'' \<and> \<not> board_status ''Archived''"
  by (simp add: empty_manager_def add_task_def update_task_status_def save_tasks_def Let_def
        board_status_def)

text \<open>
  C8, amended. In every manager reached from the empty one by calls whose status
  arguments are among \<open>"To do"\<close>, \<open>"Doing"\<close> and \<open>"Done"\<close> (the only ones the board
  passes), every task has one of these three statuses; and the file, once written, holds
  the dump of that very collection.
\<close>

theorem board_calls_keep_board_status:
  "list_all board_call cs \<Longrightarrow>
   list_all (\<lambda>t. board_status (t_status t)) (tasks (run json_dump empty_manager cs))
   \<and> (data_file (run json_dump empty_manager cs) = None
      \<or> data_file (run json_dump empty_manager cs) =
           Some (json_dump (tasks (run json_dump empty_manager cs))))"
proof
  assume "list_all board_call cs"
  then show "list_all (\<lambda>t. board_status (t_status t)) (tasks (run json_dump empty_manager cs))"
    by (intro board_status_run) (simp_all add: empty_manager_def)
next
  show "data_file (run json_dump empty_manager cs) = None
      \<or> data_file (run json_dump empty_manager cs) =
           Some (json_dump (tasks (run json_dump empty_manager cs)))"
    by (rule file_run) (simp add: empty_manager_def)
qed

text \<open>
  The hypothesis of the amended C8 on the scenario of the specification: two tasks
  added, the first moved to \<open>"Doing"\<close>, a query, the second deleted.
\<close>

theorem board_calls_keep_board_status_witness:
  "list_all (\<lambda>t. board_status (t_status t))
     (tasks (run id empty_manager
        [AddTask ''Write spec'' ''To do'' ''2024-01-01'', AddTask ''Review'' ''To do'' ''2024-01-02'',
         UpdateTaskStatus 1 ''Doing'', GetTasksByStatus ''To do'', DeleteTask 2]))
   \<and> tasks (run id empty_manager
        [AddTask ''Write spec'' ''To do'' ''2024-01-01'', AddTask ''Review'' ''To do'' ''2024-01-02'',
         UpdateTaskStatus 1 ''Doing'', GetTasksByStatus ''To do'', DeleteTask 2])
      = [\<lparr>t_id = 1, t_title = ''Write spec'', t_status = ''Doing'', t_date = ''2024-01-01''\<rparr>]"
proof -
  let ?cs = "[AddTask ''Write spec'' ''To do'' ''2024-01-01'', AddTask ''Review'' ''To do'' ''2024-01-02'',
         UpdateTaskStatus 1 ''Doing'', GetTasksByStatus ''To do'', DeleteTask 2]"
  have h: "list_all board_call ?cs"
    by (simp add: board_status_def)
  have "tasks (run id (empty_manager :: task list manager) ?cs)
      = [\<lparr>t_id = 1, t_title = ''Write spec'', t_status = ''Doing'', t_date = ''2024-01-01''\<rparr>]"
    by (simp add: empty_manager_def add_task_def update_task_status_def delete_task_def
          save_tasks_def Let_def)
  with board_calls_keep_board_status [of ?cs id, OF h] show ?thesis
    by simp
qed

end
